theory Spec2Isabelle
  imports Complex_Main
begin

section \<open>JavaScript values\<close>

text \<open>
  The envelope code of \<^verbatim>\<open>packages/core/src/envelope.ts\<close> builds object literals whose
  keys are present or absent depending on the input, and whose values may be
  \<^verbatim>\<open>undefined\<close>. Output objects are therefore modelled as association lists from
  keys to values, in insertion order, with \<open>JUndefined\<close> a value of its own: a key that
  is present with the value \<^verbatim>\<open>undefined\<close> differs from a key that is absent.
  Numbers are never computed with, only copied, so their carrier is the type
  parameter \<open>'n\<close>.
\<close>

datatype 'n jsval =
    JUndefined
  | JNull
  | JBool bool
  | JNum 'n
  | JStr string
  | JArr "'n jsval list"
  | JObj "(string \<times> 'n jsval) list"

type_synonym 'n jsobj = "(string \<times> 'n jsval) list"

text \<open>\<^verbatim>\<open>k in obj\<close>: the key is present, whatever its value.\<close>

definition js_in :: "string \<Rightarrow> 'n jsobj \<Rightarrow> bool" where
  "js_in k obj = (k \<in> set (map fst obj))"

text \<open>\<^verbatim>\<open>obj[k]\<close>: the value of the key, \<^verbatim>\<open>undefined\<close> when the key is absent.\<close>

definition js_get :: "'n jsobj \<Rightarrow> string \<Rightarrow> 'n jsval" where
  "js_get obj k = (case map_of obj k of None \<Rightarrow> JUndefined | Some v \<Rightarrow> v)"

text \<open>
  Input objects follow their TypeScript interfaces: an optional property \<^verbatim>\<open>p?: T\<close> is
  a field of type \<open>T option\<close>, \<open>None\<close> standing for a property that is absent or
  \<^verbatim>\<open>undefined\<close> (the code reads both alike). The two functions below place such a field
  as a value of an object literal.
\<close>

definition js_str :: "string option \<Rightarrow> 'n jsval" where
  "js_str s = (case s of None \<Rightarrow> JUndefined | Some t \<Rightarrow> JStr t)"

definition js_num :: "'n option \<Rightarrow> 'n jsval" where
  "js_num r = (case r of None \<Rightarrow> JUndefined | Some x \<Rightarrow> JNum x)"

text \<open>
  Truthiness of a value of type \<^verbatim>\<open>string | undefined\<close>: \<^verbatim>\<open>undefined\<close> and the empty
  string are falsy, every other string is truthy.
\<close>

definition truthy :: "string option \<Rightarrow> bool" where
  "truthy s = (case s of None \<Rightarrow> False | Some t \<Rightarrow> t \<noteq> [])"

text \<open>\<^verbatim>\<open>a || b\<close> on values of type \<^verbatim>\<open>string | undefined\<close>.\<close>

definition js_or :: "string option \<Rightarrow> string option \<Rightarrow> string option" where
  "js_or a b = (if truthy a then a else b)"

text \<open>\<^verbatim>\<open>xs || []\<close> on an optional array (an array is always truthy).\<close>

definition or_empty :: "'a list option \<Rightarrow> 'a list" where
  "or_empty xs = (case xs of None \<Rightarrow> [] | Some ys \<Rightarrow> ys)"

text \<open>
  \<^verbatim>\<open>...(c && { k: v })\<close> inside an object literal: the key is added when \<open>c\<close> is
  truthy, and spreading a falsy value adds nothing.
\<close>

definition spread_if :: "bool \<Rightarrow> string \<Rightarrow> 'n jsval \<Rightarrow> 'n jsobj" where
  "spread_if c k v = (if c then [(k, v)] else [])"

section \<open>The data model of \<^verbatim>\<open>@sentry/types\<close>\<close>

text \<open>
  The interfaces that \<^verbatim>\<open>envelope.ts\<close> imports from \<^verbatim>\<open>@sentry/types\<close> are not part of the
  sources at hand. Each record below has the properties that the code reads or
  writes, typed as the code uses them; an interface with further properties keeps
  them in a field of its own.
\<close>

text \<open>
  Modelled from the spec: \<^verbatim>\<open>Package\<close>, an entry of the packages list of an SDK record,
  a name and a version. The code copies the entries and reads nothing of them.
\<close>

datatype Package = Package (package_name: string) (package_version: string)

text \<open>
  Modelled from the spec: \<^verbatim>\<open>SdkInfo\<close>, the SDK sub-record of name, version and the
  lists of integrations and packages, each optional. The two arrays are given by
  value (\<open>SdkInfo\<close>, where an array is the list of its elements) or by reference
  (\<open>SdkInfoRef\<close>, where an array is its address in a store); the record is generic in
  that.
\<close>

record ('i, 'p) SdkInfo_of =
  name :: "string option"
  version :: "string option"
  integrations :: "'i option"
  packages :: "'p option"

text \<open>Modelled from the spec: \<^verbatim>\<open>SdkMetadata\<close>, the metadata with its optional SDK record.\<close>

record ('i, 'p) SdkMetadata_of =
  sdk :: "('i, 'p) SdkInfo_of option"

text \<open>
  Modelled from the spec: the sampling data kept under
  \<^verbatim>\<open>sdkProcessingMetadata.transactionSampling\<close>, a sampling method and a sample rate.
\<close>

record 'n TransactionSampling =
  method' :: "string option"
  rate :: "'n option"

text \<open>
  Modelled from the spec: \<^verbatim>\<open>sdkProcessingMetadata\<close>, the scratch field of the processing
  pipeline.
\<close>

record 'n SdkProcessingMetadata =
  transactionSampling :: "'n TransactionSampling option"
  processing_other :: "'n jsobj"

text \<open>Modelled from the spec: \<^verbatim>\<open>User\<close>, with its optional id and segment.\<close>

record 'n User =
  user_id :: "string option"
  segment :: "string option"
  user_other :: "'n jsobj"

text \<open>
  Modelled from the spec: \<^verbatim>\<open>EventType\<close>, the type discriminator of an event, which the
  code compares with \<^verbatim>\<open>'transaction'\<close> and places in the item header as its type: a
  string literal, never the empty string. \<open>type_string\<close> is the string of a
  discriminator, \<open>Transaction\<close> the discriminator \<^verbatim>\<open>'transaction'\<close>.
\<close>

typedef EventType = "{s :: string. s \<noteq> []}"
  morphisms type_string Abs_EventType
  by (rule exI [where x = "''transaction''"]) simp

setup_lifting type_definition_EventType

lift_definition Transaction :: EventType is "''transaction''"
  by simp

text \<open>
  Modelled from the spec: \<^verbatim>\<open>Event\<close>, the error or transaction record, with the fields
  that the envelope code reads or writes; every other property of the event is kept
  in \<open>event_other\<close>. The contexts are a record of context objects by name.
\<close>

record ('n, 'i, 'p) Event_of =
  event_id :: "string option"
  type :: "EventType option"
  sdk :: "('i, 'p) SdkInfo_of option"
  sdkProcessingMetadata :: "'n SdkProcessingMetadata option"
  contexts :: "(string \<times> 'n jsobj) list option"
  environment :: "string option"
  release :: "string option"
  transaction :: "string option"
  user :: "'n User option"
  event_other :: "'n jsobj"

type_synonym SdkInfo = "(string list, Package list) SdkInfo_of"

type_synonym SdkMetadata = "(string list, Package list) SdkMetadata_of"

type_synonym 'n Event = "('n, string list, Package list) Event_of"

text \<open>
  Modelled from the spec: \<^verbatim>\<open>DsnComponents\<close>, the routing descriptor, of which the code
  reads the public key.
\<close>

record 'n DsnComponents =
  publicKey :: "string option"
  dsn_other :: "'n jsobj"

text \<open>An envelope is its headers and its items, each an item header and a payload.\<close>

type_synonym ('n, 'p) Envelope = "'n jsobj \<times> ('n jsobj \<times> 'p) list"

section \<open>The SDK metadata merger\<close>

text \<open>\<^verbatim>\<open>event.sdk || {}\<close>.\<close>

definition sdk_or_empty :: "('i, 'p) SdkInfo_of option \<Rightarrow> ('i, 'p) SdkInfo_of" where
  "sdk_or_empty s =
     (case s of
        None \<Rightarrow> \<lparr>name = None, version = None, integrations = None, packages = None\<rparr>
      | Some i \<Rightarrow> i)"

text \<open>
  \<^verbatim>\<open>enhanceEventWithSdkInfo\<close> assigns to the event it is given and returns it: the
  model returns the event after the assignments.
\<close>

definition enhanceEventWithSdkInfo :: "'n Event \<Rightarrow> SdkInfo option \<Rightarrow> 'n Event" where
  "enhanceEventWithSdkInfo event sdkInfo =
     (case sdkInfo of
        None \<Rightarrow> event
      | Some info \<Rightarrow>
          (let s0 = sdk_or_empty (Event_of.sdk event);
               s1 = s0\<lparr>name := js_or (name s0) (name info)\<rparr>;
               s2 = s1\<lparr>version := js_or (version s1) (version info)\<rparr>;
               s3 = s2\<lparr>integrations :=
                         Some (or_empty (integrations s2) @ or_empty (integrations info))\<rparr>;
               s4 = s3\<lparr>packages := Some (or_empty (packages s3) @ or_empty (packages info))\<rparr>
           in event\<lparr>Event_of.sdk := Some s4\<rparr>))"

section \<open>The SDK metadata merger, with its arrays by reference\<close>

text \<open>
  The spreads \<^verbatim>\<open>[...(a || []), ...(b || [])]\<close> of \<^verbatim>\<open>enhanceEventWithSdkInfo\<close> build new
  arrays. To tell a new array from one that is written in place, the arrays are put
  in a store: an address is an index into the store, the arrays allocated are those at
  the indices below its length, and allocation appends. A read outside the store,
  which no reference of a program leads to, gives no elements.
\<close>

type_synonym addr = nat

record Store =
  stringArrays :: "string list list"
  packageArrays :: "Package list list"

type_synonym SdkInfoRef = "(addr, addr) SdkInfo_of"

type_synonym 'n EventRef = "('n, addr, addr) Event_of"

definition allocated :: "'a list list \<Rightarrow> addr \<Rightarrow> bool" where
  "allocated arrays a = (a < length arrays)"

definition array_at :: "'a list list \<Rightarrow> addr \<Rightarrow> 'a list" where
  "array_at arrays a = (if a < length arrays then arrays ! a else [])"

text \<open>The elements spread by \<^verbatim>\<open>...(r || [])\<close>.\<close>

definition elements :: "'a list list \<Rightarrow> addr option \<Rightarrow> 'a list" where
  "elements arrays r = (case r of None \<Rightarrow> [] | Some a \<Rightarrow> array_at arrays a)"

text \<open>An array literal: the new array is allocated at the end of the store.\<close>

definition new_array :: "'a list list \<Rightarrow> 'a list \<Rightarrow> 'a list list \<times> addr" where
  "new_array arrays xs = (arrays @ [xs], length arrays)"

text \<open>
  \<^verbatim>\<open>enhanceEventWithSdkInfo\<close> once more, statement by statement, on an event and a
  descriptor whose arrays are references into the store: the event and the store
  after the call.
\<close>

definition enhanceEventWithSdkInfo_store ::
  "Store \<Rightarrow> 'n EventRef \<Rightarrow> SdkInfoRef option \<Rightarrow> 'n EventRef \<times> Store" where
  "enhanceEventWithSdkInfo_store st event sdkInfo =
     (case sdkInfo of
        None \<Rightarrow> (event, st)
      | Some info \<Rightarrow>
          (let s0 = sdk_or_empty (Event_of.sdk event);
               s1 = s0\<lparr>name := js_or (name s0) (name info)\<rparr>;
               s2 = s1\<lparr>version := js_or (version s1) (version info)\<rparr>;
               (strings1, a) =
                 new_array (stringArrays st)
                   (elements (stringArrays st) (integrations s2)
                    @ elements (stringArrays st) (integrations info));
               st1 = st\<lparr>stringArrays := strings1\<rparr>;
               s3 = s2\<lparr>integrations := Some a\<rparr>;
               (packages1, b) =
                 new_array (packageArrays st1)
                   (elements (packageArrays st1) (packages s3)
                    @ elements (packageArrays st1) (packages info));
               st2 = st1\<lparr>packageArrays := packages1\<rparr>;
               s4 = s3\<lparr>packages := Some b\<rparr>
           in (event\<lparr>Event_of.sdk := Some s4\<rparr>, st2)))"

text \<open>The value of an SDK record and of an event in a store: each array read out.\<close>

definition load_sdk :: "Store \<Rightarrow> SdkInfoRef \<Rightarrow> SdkInfo" where
  "load_sdk st s =
     \<lparr>name = name s, version = version s,
      integrations = map_option (array_at (stringArrays st)) (integrations s),
      packages = map_option (array_at (packageArrays st)) (packages s)\<rparr>"

definition load_event :: "Store \<Rightarrow> 'n EventRef \<Rightarrow> 'n Event" where
  "load_event st e =
     \<lparr>event_id = event_id e, type = type e,
      sdk = map_option (load_sdk st) (Event_of.sdk e),
      sdkProcessingMetadata = sdkProcessingMetadata e, contexts = contexts e,
      environment = environment e, release = release e, transaction = transaction e,
      user = user e, event_other = event_other e\<rparr>"

section \<open>Helpers of \<^verbatim>\<open>@sentry/utils\<close>\<close>

text \<open>
  Modelled from the spec: \<^verbatim>\<open>createEnvelope\<close> of \<^verbatim>\<open>@sentry/utils\<close> is not part of
  the sources at hand. The envelope assembler has the contract
  \<^verbatim>\<open>(header, items[]) -> Envelope\<close>, purely structural packaging with no validation
  of the items.
\<close>

definition createEnvelope :: "'n jsobj \<Rightarrow> ('n jsobj \<times> 'p) list \<Rightarrow> ('n, 'p) Envelope" where
  "createEnvelope headers items = (headers, items)"

text \<open>
  Modelled from the spec: \<^verbatim>\<open>dropUndefinedKeys\<close> of \<^verbatim>\<open>@sentry/utils\<close> is not part of
  the sources at hand. All undefined-valued fields inside the object it is given are
  dropped, at every depth; the other keys keep their order, and a value that is not
  an object or an array is returned as it is.
\<close>

fun dropUndefinedKeys :: "'n jsval \<Rightarrow> 'n jsval" where
  "dropUndefinedKeys (JObj kvs) =
     JObj (map (\<lambda>(k, v). (k, dropUndefinedKeys v)) (filter (\<lambda>(k, v). v \<noteq> JUndefined) kvs))"
| "dropUndefinedKeys (JArr vs) = JArr (map dropUndefinedKeys vs)"
| "dropUndefinedKeys v = v"

text \<open>
  \<^verbatim>\<open>dsnToString\<close> of \<^verbatim>\<open>@sentry/utils\<close> and the clock read by
  \<^verbatim>\<open>new Date().toISOString()\<close> are parameters of the functions below: \<open>dsnToString\<close>
  renders the DSN components, \<open>now\<close> is the ISO-8601 string of the time of the call.
\<close>

section \<open>Envelope construction\<close>

text \<open>
  \<^verbatim>\<open>getSdkMetadataForEnvelopeHeader\<close>: the object literal \<^verbatim>\<open>{ name, version }\<close> when the
  metadata has an \<^verbatim>\<open>sdk\<close> record, \<^verbatim>\<open>undefined\<close> otherwise.
\<close>

definition getSdkMetadataForEnvelopeHeader :: "SdkMetadata option \<Rightarrow> 'n jsval option" where
  "getSdkMetadataForEnvelopeHeader metadata =
     (case metadata of
        None \<Rightarrow> None
      | Some m \<Rightarrow>
          (case SdkMetadata_of.sdk m of
             None \<Rightarrow> None
           | Some s \<Rightarrow> Some (JObj [(''name'', js_str (name s)), (''version'', js_str (version s))])))"

text \<open>\<^verbatim>\<open>...(sdkInfo && { sdk: sdkInfo })\<close>: an object is always truthy.\<close>

definition spread_opt :: "string \<Rightarrow> 'n jsval option \<Rightarrow> 'n jsobj" where
  "spread_opt k v = (case v of None \<Rightarrow> [] | Some x \<Rightarrow> [(k, x)])"

definition createSessionEnvelope ::
  "('n DsnComponents \<Rightarrow> string) \<Rightarrow> string \<Rightarrow>
   'n jsobj \<Rightarrow> 'n DsnComponents \<Rightarrow> SdkMetadata option \<Rightarrow> string option \<Rightarrow>
   ('n, 'n jsobj) Envelope" where
  "createSessionEnvelope dsnToString now session dsn metadata tunnel =
     (let sdkInfo = getSdkMetadataForEnvelopeHeader metadata;
          envelopeHeaders =
            [(''sent_at'', JStr now)]
            @ spread_opt ''sdk'' sdkInfo
            @ spread_if (truthy tunnel) ''dsn'' (JStr (dsnToString dsn));
          envelopeItem =
            (if js_in ''aggregates'' session
             then ([(''type'', JStr ''sessions'')], session)
             else ([(''type'', JStr ''session'')], session))
      in createEnvelope envelopeHeaders [envelopeItem])"

text \<open>
  \<^verbatim>\<open>createEventEnvelopeHeaders\<close>. The last spread,
  \<^verbatim>\<open>...(event.type === 'transaction' && event.contexts && event.contexts.trace && { trace: ... })\<close>,
  adds the \<^verbatim>\<open>trace\<close> key when the three conditions hold (a contexts record and a
  context inside it are objects, hence truthy when present) and nothing otherwise.
\<close>

definition createEventEnvelopeHeaders ::
  "('n DsnComponents \<Rightarrow> string) \<Rightarrow> string \<Rightarrow>
   'n Event \<Rightarrow> 'n jsval option \<Rightarrow> string option \<Rightarrow> 'n DsnComponents \<Rightarrow> 'n jsobj" where
  "createEventEnvelopeHeaders dsnToString now event sdkInfo tunnel dsn =
     [(''event_id'', js_str (event_id event)), (''sent_at'', JStr now)]
     @ spread_opt ''sdk'' sdkInfo
     @ spread_if (truthy tunnel) ''dsn'' (JStr (dsnToString dsn))
     @ (if map_option type_string (type event) = Some ''transaction'' then
          (case contexts event of
             None \<Rightarrow> []
           | Some ctxs \<Rightarrow>
               (case map_of ctxs ''trace'' of
                  None \<Rightarrow> []
                | Some trace_ctx \<Rightarrow>
                    [(''trace'',
                      dropUndefinedKeys
                        (JObj
                          [(''trace_id'', js_get trace_ctx ''trace_id''),
                           (''environment'', js_str (environment event)),
                           (''release'', js_str (release event)),
                           (''transaction'', js_str (transaction event)),
                           (''user'',
                             (case user event of
                                None \<Rightarrow> JUndefined
                              | Some u \<Rightarrow>
                                  JObj [(''id'', js_str (user_id u)),
                                        (''segment'', js_str (segment u))])),
                           (''public_key'', js_str (publicKey dsn))]))]))
        else [])"

text \<open>\<^verbatim>\<open>event.type || 'event'\<close>.\<close>

definition js_or_default :: "string option \<Rightarrow> string \<Rightarrow> string" where
  "js_or_default a d = (case a of None \<Rightarrow> d | Some s \<Rightarrow> if s \<noteq> [] then s else d)"

text \<open>
  \<^verbatim>\<open>createEventEnvelope\<close> assigns to the event it is given and places that same event
  in the envelope: the model returns the envelope together with the event as the
  call leaves it.
\<close>

definition createEventEnvelope ::
  "('n DsnComponents \<Rightarrow> string) \<Rightarrow> string \<Rightarrow>
   'n Event \<Rightarrow> 'n DsnComponents \<Rightarrow> SdkMetadata option \<Rightarrow> string option \<Rightarrow>
   ('n, 'n Event) Envelope \<times> 'n Event" where
  "createEventEnvelope dsnToString now event dsn metadata tunnel =
     (let sdkInfo = getSdkMetadataForEnvelopeHeader metadata;
          eventType = js_or_default (map_option type_string (type event)) ''event'';
          transactionSampling' = Option.bind (sdkProcessingMetadata event) transactionSampling;
          samplingMethod = Option.bind transactionSampling' method';
          sampleRate = Option.bind transactionSampling' rate;
          event1 = enhanceEventWithSdkInfo event (Option.bind metadata SdkMetadata_of.sdk);
          event2 = event1\<lparr>sdkProcessingMetadata := None\<rparr>;
          envelopeHeaders = createEventEnvelopeHeaders dsnToString now event2 sdkInfo tunnel dsn;
          eventItem =
            ([(''type'', JStr eventType),
              (''sample_rates'',
                JArr [JObj [(''id'', js_str samplingMethod), (''rate'', js_num sampleRate)]])],
             event2)
      in (createEnvelope envelopeHeaders [eventItem], event2))"

section \<open>Replay segmentation\<close>

text \<open>
  Modelled from the spec: the Segment Accumulator. The replay integration is not part
  of the sources at hand, only its integration test
  \<^verbatim>\<open>suites/replay/multiple-pages/test.ts\<close> is. The accumulator buffers four kinds of
  data (full snapshots, incremental mutations, breadcrumbs, performance spans), each in
  arrival order; an append operation simply appends, and clearing happens only as part
  of a flush.
\<close>

record 'd Accumulator =
  fullSnapshots :: "'d list"
  incrementalSnapshots :: "'d list"
  breadcrumbs :: "'d list"
  performanceSpans :: "'d list"

text \<open>Modelled from the spec: the accumulator after a flush, with nothing buffered.\<close>

definition emptyAccumulator :: "'d Accumulator" where
  "emptyAccumulator =
     \<lparr>fullSnapshots = [], incrementalSnapshots = [], breadcrumbs = [], performanceSpans = []\<rparr>"

text \<open>
  Modelled from the spec: the accumulator is empty when it holds no snapshot, no
  mutation, no breadcrumb and no performance span.
\<close>

definition isEmpty :: "'d Accumulator \<Rightarrow> bool" where
  "isEmpty acc =
     (fullSnapshots acc = [] \<and> incrementalSnapshots acc = [] \<and>
      breadcrumbs acc = [] \<and> performanceSpans acc = [])"

text \<open>
  Modelled from the spec: a replay segment, the unit of replay transmission, is its
  \<^verbatim>\<open>segment_id\<close> and the data accumulated for it.
\<close>

record 'd ReplaySegment =
  segment_id :: nat
  recording :: "'d Accumulator"

text \<open>
  Modelled from the spec: the states of the Segmenter/Sequencer, \<^verbatim>\<open>Idle\<close> (no session)
  and \<^verbatim>\<open>Recording\<close>; \<^verbatim>\<open>Flushing\<close> is transient, inside one step.
\<close>

datatype SegmenterState = Idle | Recording

text \<open>
  Modelled from the spec: the signals of the Segmenter/Sequencer: \<^verbatim>\<open>start()\<close> (with the
  initial full snapshot), the four append operations of the accumulator, the four
  flush triggers (\<^verbatim>\<open>tick()\<close>, \<^verbatim>\<open>backgrounded\<close>, \<^verbatim>\<open>navigated\<close>, manual flush),
  \<^verbatim>\<open>reloaded\<close> (a hard navigation, with the fresh full snapshot taken after it) and
  \<^verbatim>\<open>stop()\<close>.
\<close>

datatype 'd Signal =
    Start 'd
  | AddFullSnapshot 'd
  | AddIncremental 'd
  | AddBreadcrumb 'd
  | AddPerformanceSpan 'd
  | Tick
  | Backgrounded
  | Navigated
  | ManualFlush
  | Reloaded 'd
  | Stop

text \<open>
  Modelled from the spec: the state of the Segmenter/Sequencer: the state of the
  machine, the segment counter and the accumulator.
\<close>

record 'd Segmenter =
  state :: SegmenterState
  segmentCounter :: nat
  accumulator :: "'d Accumulator"

text \<open>
  Modelled from the spec: a flush packages whatever is in the accumulator under the
  current segment counter, increments the counter by exactly 1 and clears the
  accumulator; a flush with nothing accumulated of any of the four kinds is a no-op
  that consumes no segment number.
\<close>

definition flush :: "'d Segmenter \<Rightarrow> 'd Segmenter \<times> 'd ReplaySegment option" where
  "flush s =
     (if isEmpty (accumulator s) then (s, None)
      else (s\<lparr>segmentCounter := segmentCounter s + 1, accumulator := emptyAccumulator\<rparr>,
            Some \<lparr>segment_id = segmentCounter s, recording = accumulator s\<rparr>))"

text \<open>
  Modelled from the spec: the transitions. \<^verbatim>\<open>start()\<close> leads from \<^verbatim>\<open>Idle\<close> to
  \<^verbatim>\<open>Recording\<close>, resets the counter to 0 and takes an initial full snapshot. A flush
  trigger flushes while recording. \<^verbatim>\<open>reloaded\<close> continues the session: the counter is
  kept, the buffered state was reset by the browser, and a fresh full snapshot opens
  the next segment. \<^verbatim>\<open>stop()\<close> flushes pending data as a final segment and leads to
  \<^verbatim>\<open>Idle\<close>. A signal with no transition from the current state changes nothing.
\<close>

fun step :: "'d Segmenter \<Rightarrow> 'd Signal \<Rightarrow> 'd Segmenter \<times> 'd ReplaySegment option" where
  "step s (Start snap) =
     (if state s = Idle
      then (s\<lparr>state := Recording, segmentCounter := 0,
               accumulator := (accumulator s)\<lparr>fullSnapshots := fullSnapshots (accumulator s) @ [snap]\<rparr>\<rparr>,
            None)
      else (s, None))"
| "step s (AddFullSnapshot d) =
     (s\<lparr>accumulator := (accumulator s)\<lparr>fullSnapshots := fullSnapshots (accumulator s) @ [d]\<rparr>\<rparr>,
      None)"
| "step s (AddIncremental d) =
     (s\<lparr>accumulator :=
          (accumulator s)\<lparr>incrementalSnapshots := incrementalSnapshots (accumulator s) @ [d]\<rparr>\<rparr>,
      None)"
| "step s (AddBreadcrumb d) =
     (s\<lparr>accumulator := (accumulator s)\<lparr>breadcrumbs := breadcrumbs (accumulator s) @ [d]\<rparr>\<rparr>,
      None)"
| "step s (AddPerformanceSpan d) =
     (s\<lparr>accumulator :=
          (accumulator s)\<lparr>performanceSpans := performanceSpans (accumulator s) @ [d]\<rparr>\<rparr>,
      None)"
| "step s Tick = (if state s = Recording then flush s else (s, None))"
| "step s Backgrounded = (if state s = Recording then flush s else (s, None))"
| "step s Navigated = (if state s = Recording then flush s else (s, None))"
| "step s ManualFlush = (if state s = Recording then flush s else (s, None))"
| "step s (Reloaded snap) =
     (if state s = Recording
      then (s\<lparr>accumulator := emptyAccumulator\<lparr>fullSnapshots := [snap]\<rparr>\<rparr>, None)
      else (s, None))"
| "step s Stop =
     (if state s = Recording
      then (case flush s of (s', seg) \<Rightarrow> (s'\<lparr>state := Idle\<rparr>, seg))
      else (s, None))"

text \<open>
  Modelled from the spec: all mutation happens on a single timeline, one signal after
  the other; the segments handed to the transport are collected in emission order.
\<close>

fun run :: "'d Segmenter \<Rightarrow> 'd Signal list \<Rightarrow> 'd Segmenter \<times> 'd ReplaySegment list" where
  "run s [] = (s, [])"
| "run s (x # xs) =
     (case step s x of
        (s1, seg) \<Rightarrow>
          (case run s1 xs of
             (s2, segs) \<Rightarrow> (s2, (case seg of None \<Rightarrow> [] | Some g \<Rightarrow> [g]) @ segs)))"

text \<open>Modelled from the spec: the Segmenter before any session.\<close>

definition idle :: "'d Segmenter" where
  "idle = \<lparr>state = Idle, segmentCounter = 0, accumulator = emptyAccumulator\<rparr>"

text \<open>Modelled from the spec: the signal is a \<^verbatim>\<open>start()\<close>, which opens a session.\<close>

fun isStart :: "'d Signal \<Rightarrow> bool" where
  "isStart (Start snap) = True"
| "isStart x = False"

section \<open>Predicates of the statements\<close>

text \<open>
  An object is sparsely serialized when none of its keys, at any depth, has the value
  \<^verbatim>\<open>undefined\<close>.
\<close>

fun no_undefined_keys :: "'n jsval \<Rightarrow> bool" where
  "no_undefined_keys (JObj kvs) = (\<forall>(k, v) \<in> set kvs. v \<noteq> JUndefined \<and> no_undefined_keys v)"
| "no_undefined_keys (JArr vs) = (\<forall>v \<in> set vs. no_undefined_keys v)"
| "no_undefined_keys v = True"

section \<open>Example inputs\<close>

definition now0 :: string where
  "now0 = ''2022-06-01T12:00:00.000Z''"

definition ex_dsn :: "real DsnComponents" where
  "ex_dsn = \<lparr>publicKey = Some ''abc123'',
              dsn_other = [(''host'', JStr ''sentry.example''), (''projectId'', JStr ''42'')]\<rparr>"

definition ex_dsnToString :: "real DsnComponents \<Rightarrow> string" where
  "ex_dsnToString dsn = ''https://abc123@sentry.example/42''"

definition ex_sdk :: SdkInfo where
  "ex_sdk = \<lparr>name = Some ''sentry.javascript.browser'', version = Some ''7.0.0'',
              integrations = Some [''InboundFilters'', ''Breadcrumbs''],
              packages = Some [Package ''npm:@sentry/browser'' ''7.0.0'']\<rparr>"

definition ex_metadata :: SdkMetadata where
  "ex_metadata = \<lparr>SdkMetadata_of.sdk = Some ex_sdk\<rparr>"

text \<open>An error event, sampled, with no SDK record of its own.\<close>

definition ex_event :: "real Event" where
  "ex_event =
     \<lparr>event_id = Some ''9ec79c33ec9942ab8353589fcb2e04dc'', type = None, sdk = None,
      sdkProcessingMetadata =
        Some \<lparr>transactionSampling = Some \<lparr>method' = Some ''client_rate'', rate = Some (1 / 4)\<rparr>,
              processing_other = []\<rparr>,
      contexts = None, environment = Some ''production'', release = None,
      transaction = None, user = None,
      event_other = [(''message'', JStr ''boom'')]\<rparr>"

text \<open>
  A transaction with a trace context, a user and an SDK name and version set by the
  caller.
\<close>

definition ex_transaction :: "real Event" where
  "ex_transaction =
     \<lparr>event_id = Some ''0f1e2d3c4b5a69788796a5b4c3d2e1f0'', type = Some Transaction,
      sdk = Some \<lparr>name = Some ''custom.sdk'', version = Some ''1.0.0'',
                 integrations = Some [''Tracing''], packages = None\<rparr>,
      sdkProcessingMetadata =
        Some \<lparr>transactionSampling = Some \<lparr>method' = Some ''client_sampler'', rate = Some 1\<rparr>,
              processing_other = []\<rparr>,
      contexts = Some [(''trace'', [(''trace_id'', JStr ''86f39e84263a4de99c326acab3bfe3bd''),
                                    (''span_id'', JStr ''b01b9f6349558cd1'')])],
      environment = None, release = Some ''1.2.3'', transaction = Some ''/checkout'',
      user = Some \<lparr>user_id = Some ''u-17'', segment = None, user_other = []\<rparr>,
      event_other = []\<rparr>"

text \<open>An event whose SDK record carries an empty name and an empty version.\<close>

definition ex_event_empty_name :: "real Event" where
  "ex_event_empty_name =
     ex_event\<lparr>sdk := Some \<lparr>name = Some [], version = Some [],
                            integrations = None, packages = None\<rparr>\<rparr>"

text \<open>
  A store with two arrays of integration names and no array of packages, an event whose
  SDK record refers to the first array, and a descriptor with no arrays.
\<close>

definition ex_store :: Store where
  "ex_store = \<lparr>stringArrays = [[''Tracing''], [''InboundFilters'', ''Breadcrumbs'']],
                packageArrays = []\<rparr>"

definition ex_event_ref :: "real EventRef" where
  "ex_event_ref =
     \<lparr>event_id = Some ''0f1e2d3c4b5a69788796a5b4c3d2e1f0'', type = Some Transaction,
      sdk = Some \<lparr>name = Some ''custom.sdk'', version = Some ''1.0.0'',
                 integrations = Some 0, packages = None\<rparr>,
      sdkProcessingMetadata = None, contexts = None, environment = None, release = None,
      transaction = None, user = None, event_other = []\<rparr>"

definition ex_sdk_ref :: SdkInfoRef where
  "ex_sdk_ref = \<lparr>name = Some ''sentry.javascript.browser'', version = Some ''7.0.0'',
                  integrations = None, packages = None\<rparr>"

definition ex_session :: "real jsobj" where
  "ex_session = [(''sid'', JStr ''c81d4e2e''), (''init'', JBool True), (''status'', JStr ''ok'')]"

definition ex_aggregates :: "real jsobj" where
  "ex_aggregates =
     [(''attrs'', JObj [(''release'', JStr ''1.2.3'')]),
      (''aggregates'', JArr [JObj [(''started'', JStr ''2022-06-01T12:00:00.000Z''),
                                   (''exited'', JNum 3)]])]"

text \<open>
  The signals of a session as the integration test drives it: the page loads, the
  user clicks and the page goes to the background, the page is reloaded, and the
  user clicks and backgrounds the page again.
\<close>

text \<open>A Segmenter in the middle of a session, with a click buffered.\<close>

definition ex_recording :: "string Segmenter" where
  "ex_recording =
     \<lparr>state = Recording, segmentCounter = 4,
      accumulator = \<lparr>fullSnapshots = [], incrementalSnapshots = [''mutation''],
                      breadcrumbs = [''ui.click''], performanceSpans = []\<rparr>\<rparr>"

definition ex_signals :: "string Signal list" where
  "ex_signals =
     [AddPerformanceSpan ''navigation.navigate'', Tick,
      Tick,
      AddBreadcrumb ''ui.click'', AddIncremental ''mutation'', Backgrounded,
      Reloaded ''full snapshot after reload'', AddPerformanceSpan ''navigation.reload'', Tick,
      AddBreadcrumb ''ui.click'', AddIncremental ''mutation'', Backgrounded,
      Navigated,
      Stop]"

section \<open>Auxiliary facts\<close>

text \<open>A type discriminator is never the empty string.\<close>

lemma type_string_nonempty: "type_string t \<noteq> []"
  using type_string [of t] by simp

lemma sdk_or_empty_Some [simp]: "sdk_or_empty (Some s) = s"
  by (simp add: sdk_or_empty_def)

lemma dropUndefinedKeys_keeps_defined:
  "v \<noteq> JUndefined \<Longrightarrow> dropUndefinedKeys v \<noteq> JUndefined"
  by (cases v) simp_all

lemma dropUndefinedKeys_sparse: "no_undefined_keys (dropUndefinedKeys v)"
proof (induction v rule: dropUndefinedKeys.induct)
  case (1 kvs)
  then show ?case
    by (auto simp: dropUndefinedKeys_keeps_defined)
qed simp_all

text \<open>The keys of the event headers, in order.\<close>

lemma headers_keys:
  "map fst (createEventEnvelopeHeaders dts now e si tunnel dsn) =
     [''event_id'', ''sent_at'']
     @ (if si = None then [] else [''sdk''])
     @ (if truthy tunnel then [''dsn''] else [])
     @ (if map_option type_string (type e) = Some ''transaction'' \<and>
           (\<exists>ctxs tr. contexts e = Some ctxs \<and> map_of ctxs ''trace'' = Some tr)
        then [''trace''] else [])"
  by (auto simp: createEventEnvelopeHeaders_def spread_opt_def spread_if_def split: option.splits)

lemma trace_value:
  assumes "js_in ''trace'' (createEventEnvelopeHeaders dts now e si tunnel dsn)"
  shows "\<exists>kvs. js_get (createEventEnvelopeHeaders dts now e si tunnel dsn) ''trace'' =
           dropUndefinedKeys (JObj kvs)"
proof -
  from assms obtain ctxs tr where
    t: "map_option type_string (type e) = Some ''transaction''" and c: "contexts e = Some ctxs"
    and m: "map_of ctxs ''trace'' = Some tr"
    by (auto simp: js_in_def headers_keys split: if_splits)
  let ?base = "[(''event_id'', js_str (event_id e)), (''sent_at'', JStr now)]
     @ spread_opt ''sdk'' si @ spread_if (truthy tunnel) ''dsn'' (JStr (dts dsn))"
  obtain kvs where
    hdr: "createEventEnvelopeHeaders dts now e si tunnel dsn =
            ?base @ [(''trace'', dropUndefinedKeys (JObj kvs))]"
    by (simp add: createEventEnvelopeHeaders_def t c m del: dropUndefinedKeys.simps)
  have "map_of ?base ''trace'' = None"
    by (simp add: spread_opt_def spread_if_def split: option.split)
  then have "map_of (?base @ [(''trace'', dropUndefinedKeys (JObj kvs))]) ''trace'' =
          Some (dropUndefinedKeys (JObj kvs))"
    by (simp only: map_of_append map_add_def map_of.simps fst_conv snd_conv fun_upd_same
          option.case)
  then have "js_get (createEventEnvelopeHeaders dts now e si tunnel dsn) ''trace'' =
          dropUndefinedKeys (JObj kvs)"
    unfolding hdr js_get_def by (simp only: option.case)
  then show ?thesis by blast
qed

lemma session_headers_keys:
  "map fst (fst (createSessionEnvelope dts now session dsn metadata tunnel)) =
     [''sent_at'']
     @ (if getSdkMetadataForEnvelopeHeader metadata = (None :: 'n jsval option)
        then [] else [''sdk''])
     @ (if truthy tunnel then [''dsn''] else [])"
  for dts :: "'n DsnComponents \<Rightarrow> string"
  by (auto simp: createSessionEnvelope_def createEnvelope_def Let_def spread_opt_def
        spread_if_def split: option.splits)

lemma getSdkMetadataForEnvelopeHeader_None:
  "getSdkMetadataForEnvelopeHeader metadata = None \<longleftrightarrow>
     \<not> (\<exists>m s. metadata = Some m \<and> SdkMetadata_of.sdk m = Some s)"
  by (auto simp: getSdkMetadataForEnvelopeHeader_def split: option.splits)

text \<open>The headers of an event envelope are built from the event as the call leaves it.\<close>

lemma event_envelope_headers:
  "fst (fst (createEventEnvelope dts now e dsn metadata tunnel)) =
     createEventEnvelopeHeaders dts now (snd (createEventEnvelope dts now e dsn metadata tunnel))
       (getSdkMetadataForEnvelopeHeader metadata) tunnel dsn"
  by (simp add: createEventEnvelope_def createEnvelope_def Let_def)

lemma array_at_new_array [simp]:
  "array_at (arrays @ [xs]) a = (if a = length arrays then xs else array_at arrays a)"
  by (auto simp: array_at_def nth_append)

text \<open>
  The merger by reference does to the values what the merger by value does: reading
  the arrays out of the store after the call gives the event that
  \<^verbatim>\<open>enhanceEventWithSdkInfo\<close> returns on the values read out before it.
\<close>

lemma enhanceEventWithSdkInfo_store_load:
  assumes "enhanceEventWithSdkInfo_store st e d = (e', st')"
  shows "load_event st' e' =
           enhanceEventWithSdkInfo (load_event st e) (map_option (load_sdk st) d)"
proof (cases d)
  case None
  with assms show ?thesis
    by (auto simp: enhanceEventWithSdkInfo_store_def enhanceEventWithSdkInfo_def)
next
  case (Some info)
  with assms show ?thesis
    by (cases "Event_of.sdk e")
       (auto simp: enhanceEventWithSdkInfo_store_def enhanceEventWithSdkInfo_def Let_def
          new_array_def load_event_def load_sdk_def sdk_or_empty_def elements_def or_empty_def
          split: option.splits)
qed

text \<open>The type and the contexts of the event are as before the call.\<close>

lemma event_envelope_keeps:
  "type (snd (createEventEnvelope dts now e dsn metadata tunnel)) = type e"
  "contexts (snd (createEventEnvelope dts now e dsn metadata tunnel)) = contexts e"
  by (simp_all add: createEventEnvelope_def enhanceEventWithSdkInfo_def Let_def
        split: option.split)

lemma step_counter:
  assumes "step s x = (s', seg)" and "\<not> isStart x"
  shows "case seg of
           None \<Rightarrow> segmentCounter s' = segmentCounter s
         | Some g \<Rightarrow>
             segment_id g = segmentCounter s \<and> segmentCounter s' = Suc (segmentCounter s)"
  using assms
  by (cases x) (auto simp: flush_def split: if_splits option.splits prod.splits)

lemma upt_shift: "[c ..< c + Suc n] = c # [Suc c ..< Suc c + n]"
  by (simp add: upt_conv_Cons del: upt_Suc)

text \<open>
  Without a new \<^verbatim>\<open>start()\<close>, the segments of a run carry the consecutive ids from the
  counter on, and the counter ends after the last of them.
\<close>

lemma run_ids:
  assumes "run s xs = (s', segs)" and "\<forall>x \<in> set xs. \<not> isStart x"
  shows "map segment_id segs = [segmentCounter s ..< segmentCounter s + length segs]
         \<and> segmentCounter s' = segmentCounter s + length segs"
  using assms
proof (induction xs arbitrary: s s' segs)
  case Nil
  then show ?case by simp
next
  case (Cons x xs)
  obtain s1 seg where st: "step s x = (s1, seg)" by (cases "step s x")
  obtain s2 rest where rn: "run s1 xs = (s2, rest)" by (cases "run s1 xs")
  from Cons.prems st rn have s': "s' = s2"
    and segs: "segs = (case seg of None \<Rightarrow> [] | Some g \<Rightarrow> [g]) @ rest"
    by auto
  from Cons.prems have nost: "\<not> isStart x" "\<forall>y \<in> set xs. \<not> isStart y" by auto
  from Cons.IH[OF rn nost(2)] have ih:
    "map segment_id rest = [segmentCounter s1 ..< segmentCounter s1 + length rest]"
    "segmentCounter s2 = segmentCounter s1 + length rest" by auto
  show ?case
  proof (cases seg)
    case None
    with step_counter[OF st nost(1)] have "segmentCounter s1 = segmentCounter s" by simp
    with ih None show ?thesis by (simp add: s' segs)
  next
    case (Some g)
    with step_counter[OF st nost(1)] have g: "segment_id g = segmentCounter s"
      "segmentCounter s1 = Suc (segmentCounter s)" by simp_all
    have "map segment_id segs = segmentCounter s # map segment_id rest"
      using Some g by (simp add: segs)
    also have "\<dots> =
        segmentCounter s # [Suc (segmentCounter s) ..< Suc (segmentCounter s) + length rest]"
      using ih g by simp
    also have "\<dots> = [segmentCounter s ..< segmentCounter s + Suc (length rest)]"
      by (simp only: upt_shift)
    also have "Suc (length rest) = length segs"
      using Some by (simp add: segs)
    finally have "map segment_id segs = [segmentCounter s ..< segmentCounter s + length segs]" .
    moreover have "segmentCounter s' = segmentCounter s + length segs"
      using ih g Some by (simp add: s' segs)
    ultimately show ?thesis by simp
  qed
qed

section \<open>The SDK metadata merger\<close>

text \<open>
  Claim C1, as the code has it. For every event and every SDK descriptor,
  \<^verbatim>\<open>enhanceEventWithSdkInfo\<close> keeps a name and a version of the event that are truthy
  (present and not the empty string) and takes the descriptor's otherwise, so merging
  the same descriptor twice leaves name and version as the first merge set them, and
  a truthy name or version stays through a merge of any other descriptor; the
  integrations and packages after the merge are the pre-existing entries followed by
  the descriptor's, in their order and with their duplicates, so a second merge
  appends the descriptor's entries once more; and with no descriptor the event is
  returned unchanged.
\<close>

theorem enhanceEventWithSdkInfo_merge:
  "(let s = sdk_or_empty (Event_of.sdk e);
        e1 = enhanceEventWithSdkInfo e (Some d);
        s1 = sdk_or_empty (Event_of.sdk e1);
        e2 = enhanceEventWithSdkInfo e1 (Some d);
        s2 = sdk_or_empty (Event_of.sdk e2);
        s3 = sdk_or_empty (Event_of.sdk (enhanceEventWithSdkInfo e1 (Some d')))
    in enhanceEventWithSdkInfo e None = e
     \<and> Event_of.sdk e1 = Some s1 \<and> Event_of.sdk e2 = Some s2
     \<and> (truthy (name s) \<longrightarrow> name s1 = name s)
     \<and> (\<not> truthy (name s) \<longrightarrow> name s1 = name d)
     \<and> (truthy (version s) \<longrightarrow> version s1 = version s)
     \<and> (\<not> truthy (version s) \<longrightarrow> version s1 = version d)
     \<and> name s2 = name s1 \<and> version s2 = version s1
     \<and> (truthy (name s1) \<longrightarrow> name s3 = name s1)
     \<and> (truthy (version s1) \<longrightarrow> version s3 = version s1)
     \<and> integrations s1 = Some (or_empty (integrations s) @ or_empty (integrations d))
     \<and> packages s1 = Some (or_empty (packages s) @ or_empty (packages d))
     \<and> integrations s2 =
         Some (or_empty (integrations s) @ or_empty (integrations d) @ or_empty (integrations d))
     \<and> packages s2 =
         Some (or_empty (packages s) @ or_empty (packages d) @ or_empty (packages d)))"
  by (simp add: enhanceEventWithSdkInfo_def Let_def js_or_def or_empty_def)

theorem enhanceEventWithSdkInfo_merge_witness:
  "truthy (name (sdk_or_empty (Event_of.sdk ex_transaction)))
   \<and> truthy (version (sdk_or_empty (Event_of.sdk ex_transaction)))
   \<and> Event_of.sdk (enhanceEventWithSdkInfo ex_transaction (Some ex_sdk)) =
       Some \<lparr>name = Some ''custom.sdk'', version = Some ''1.0.0'',
             integrations = Some [''Tracing'', ''InboundFilters'', ''Breadcrumbs''],
             packages = Some [Package ''npm:@sentry/browser'' ''7.0.0'']\<rparr>
   \<and> Event_of.sdk (enhanceEventWithSdkInfo
                   (enhanceEventWithSdkInfo ex_transaction (Some ex_sdk)) (Some ex_sdk)) =
       Some \<lparr>name = Some ''custom.sdk'', version = Some ''1.0.0'',
             integrations =
               Some [''Tracing'', ''InboundFilters'', ''Breadcrumbs'',
                     ''InboundFilters'', ''Breadcrumbs''],
             packages = Some [Package ''npm:@sentry/browser'' ''7.0.0'',
                              Package ''npm:@sentry/browser'' ''7.0.0'']\<rparr>
   \<and> enhanceEventWithSdkInfo ex_transaction None = ex_transaction
   \<and> \<not> truthy (name (sdk_or_empty (Event_of.sdk ex_event)))
   \<and> \<not> truthy (version (sdk_or_empty (Event_of.sdk ex_event)))
   \<and> Event_of.sdk (enhanceEventWithSdkInfo ex_event (Some ex_sdk)) = Some ex_sdk"
  using enhanceEventWithSdkInfo_merge [where e = ex_transaction and d = ex_sdk and d' = ex_sdk]
    enhanceEventWithSdkInfo_merge [where e = ex_event and d = ex_sdk and d' = ex_sdk]
  by (simp add: Let_def enhanceEventWithSdkInfo_def ex_transaction_def ex_event_def ex_sdk_def
        truthy_def js_or_def or_empty_def sdk_or_empty_def)

text \<open>
  Claim C1 as stated fails on an event whose SDK name is present but empty: the name
  is on the event, and the merge sets it all the same.
\<close>

theorem enhanceEventWithSdkInfo_empty_name_counterexample:
  "Event_of.sdk ex_event_empty_name =
     Some \<lparr>name = Some '''', version = Some '''', integrations = None, packages = None\<rparr>
   \<and> Event_of.sdk (enhanceEventWithSdkInfo ex_event_empty_name (Some ex_sdk)) =
     Some \<lparr>name = Some ''sentry.javascript.browser'', version = Some ''7.0.0'',
           integrations = Some [''InboundFilters'', ''Breadcrumbs''],
           packages = Some [Package ''npm:@sentry/browser'' ''7.0.0'']\<rparr>"
  by (simp add: enhanceEventWithSdkInfo_def Let_def ex_event_empty_name_def ex_event_def
        ex_sdk_def truthy_def js_or_def or_empty_def)

section \<open>The envelope headers\<close>

text \<open>
  Claim C2. For every event, the headers built by \<^verbatim>\<open>createEventEnvelopeHeaders\<close> have
  a \<^verbatim>\<open>trace\<close> key if and only if the type of the event is \<^verbatim>\<open>'transaction'\<close> and its
  contexts hold a trace context; and whenever the key is there, its value is an object
  none of whose keys has the value \<^verbatim>\<open>undefined\<close>. The headers of the envelope that
  \<^verbatim>\<open>createEventEnvelope\<close> returns have the key under the same condition on the input
  event.
\<close>

theorem createEventEnvelopeHeaders_trace:
  "(js_in ''trace'' (createEventEnvelopeHeaders dts now e si tunnel dsn) \<longleftrightarrow>
      map_option type_string (type e) = Some ''transaction'' \<and>
      (\<exists>ctxs tr. contexts e = Some ctxs \<and> map_of ctxs ''trace'' = Some tr))
   \<and> (js_in ''trace'' (createEventEnvelopeHeaders dts now e si tunnel dsn) \<longrightarrow>
        (\<exists>kvs. js_get (createEventEnvelopeHeaders dts now e si tunnel dsn) ''trace'' = JObj kvs) \<and>
        no_undefined_keys (js_get (createEventEnvelopeHeaders dts now e si tunnel dsn) ''trace''))
   \<and> (js_in ''trace'' (fst (fst (createEventEnvelope dts now e dsn metadata tunnel))) \<longleftrightarrow>
      map_option type_string (type e) = Some ''transaction'' \<and>
      (\<exists>ctxs tr. contexts e = Some ctxs \<and> map_of ctxs ''trace'' = Some tr))"
proof (intro conjI impI)
  show "js_in ''trace'' (fst (fst (createEventEnvelope dts now e dsn metadata tunnel))) \<longleftrightarrow>
      map_option type_string (type e) = Some ''transaction'' \<and>
      (\<exists>ctxs tr. contexts e = Some ctxs \<and> map_of ctxs ''trace'' = Some tr)"
    by (simp add: event_envelope_headers js_in_def headers_keys event_envelope_keeps)
next
  show "js_in ''trace'' (createEventEnvelopeHeaders dts now e si tunnel dsn) \<longleftrightarrow>
      map_option type_string (type e) = Some ''transaction'' \<and>
      (\<exists>ctxs tr. contexts e = Some ctxs \<and> map_of ctxs ''trace'' = Some tr)"
    by (simp add: js_in_def headers_keys)
next
  assume "js_in ''trace'' (createEventEnvelopeHeaders dts now e si tunnel dsn)"
  then obtain kvs where
    v: "js_get (createEventEnvelopeHeaders dts now e si tunnel dsn) ''trace'' =
          dropUndefinedKeys (JObj kvs)"
    using trace_value by blast
  show "\<exists>kvs. js_get (createEventEnvelopeHeaders dts now e si tunnel dsn) ''trace'' = JObj kvs"
    unfolding v by simp
  show "no_undefined_keys (js_get (createEventEnvelopeHeaders dts now e si tunnel dsn) ''trace'')"
    unfolding v by (rule dropUndefinedKeys_sparse)
qed

theorem createEventEnvelopeHeaders_trace_witness:
  "js_in ''trace'' (createEventEnvelopeHeaders ex_dsnToString now0 ex_transaction None None ex_dsn)
   \<and> js_get (createEventEnvelopeHeaders ex_dsnToString now0 ex_transaction None None ex_dsn)
        ''trace'' =
       JObj [(''trace_id'', JStr ''86f39e84263a4de99c326acab3bfe3bd''),
             (''release'', JStr ''1.2.3''), (''transaction'', JStr ''/checkout''),
             (''user'', JObj [(''id'', JStr ''u-17'')]),
             (''public_key'', JStr ''abc123'')]
   \<and> no_undefined_keys
        (js_get (createEventEnvelopeHeaders ex_dsnToString now0 ex_transaction None None ex_dsn)
           ''trace'')
   \<and> \<not> js_in ''trace'' (createEventEnvelopeHeaders ex_dsnToString now0 ex_event None None ex_dsn)"
  using createEventEnvelopeHeaders_trace
          [where dts = ex_dsnToString and now = now0 and e = ex_transaction and si = None
             and tunnel = None and dsn = ex_dsn and metadata = None]
    createEventEnvelopeHeaders_trace
          [where dts = ex_dsnToString and now = now0 and e = ex_event and si = None
             and tunnel = None and dsn = ex_dsn and metadata = None]
  by (simp add: createEventEnvelopeHeaders_def js_in_def js_get_def js_str_def spread_opt_def
        spread_if_def truthy_def ex_transaction_def ex_event_def ex_dsn_def Transaction.rep_eq)

section \<open>The event envelope\<close>

text \<open>
  Claim C3. For every input event, and so for every one that has
  \<^verbatim>\<open>sdkProcessingMetadata\<close> set, the payload of the event item of the envelope returned by
  \<^verbatim>\<open>createEventEnvelope\<close> has no \<^verbatim>\<open>sdkProcessingMetadata\<close>. The field is deleted after the
  sampling data is read (the item header still carries the sampling method and rate of
  the input event) and before the headers are built (they are built from the event
  without the field) and the envelope assembled.
\<close>

theorem createEventEnvelope_strips_sdkProcessingMetadata:
  "(case createEventEnvelope dts now e dsn metadata tunnel of
      ((headers, items), e') \<Rightarrow>
         map (\<lambda>(h, payload). sdkProcessingMetadata payload) items = [None]
       \<and> map snd items = [e']
       \<and> headers =
           createEventEnvelopeHeaders dts now e' (getSdkMetadataForEnvelopeHeader metadata)
             tunnel dsn
       \<and> map (\<lambda>(h, payload). js_get h ''sample_rates'') items =
           [JArr [JObj
              [(''id'',
                js_str (Option.bind (Option.bind (sdkProcessingMetadata e) transactionSampling)
                          method')),
               (''rate'',
                js_num (Option.bind (Option.bind (sdkProcessingMetadata e) transactionSampling)
                          rate))]]])"
  by (simp add: createEventEnvelope_def createEnvelope_def Let_def js_get_def)

theorem createEventEnvelope_strips_sdkProcessingMetadata_witness:
  "sdkProcessingMetadata ex_event =
     Some \<lparr>transactionSampling = Some \<lparr>method' = Some ''client_rate'', rate = Some (1 / 4)\<rparr>,
           processing_other = []\<rparr>
   \<and> map (\<lambda>(h, payload). sdkProcessingMetadata payload)
        (snd (fst (createEventEnvelope ex_dsnToString now0 ex_event ex_dsn (Some ex_metadata)
                     None))) = [None]
   \<and> map (\<lambda>(h, payload). js_get h ''sample_rates'')
        (snd (fst (createEventEnvelope ex_dsnToString now0 ex_event ex_dsn (Some ex_metadata)
                     None))) =
       [JArr [JObj [(''id'', JStr ''client_rate''), (''rate'', JNum (1 / 4))]]]"
  using createEventEnvelope_strips_sdkProcessingMetadata
          [where dts = ex_dsnToString and now = now0 and e = ex_event and dsn = ex_dsn
             and metadata = "Some ex_metadata" and tunnel = None]
  by (simp add: createEventEnvelope_def createEnvelope_def Let_def js_get_def js_str_def
        js_num_def ex_event_def)

text \<open>
  Claim C4. For every event, the item header produced by \<^verbatim>\<open>createEventEnvelope\<close> is
  \<^verbatim>\<open>{ type: eventType, sample_rates: [{ id: samplingMethod, rate: sampleRate }] }\<close>, where
  \<^verbatim>\<open>eventType\<close> is the type of the event if that is set, and the literal \<^verbatim>\<open>'event'\<close>
  otherwise, and the sampling method and rate are those of the \<^verbatim>\<open>transactionSampling\<close>
  of the \<^verbatim>\<open>sdkProcessingMetadata\<close> of the input event, each \<^verbatim>\<open>undefined\<close> when missing;
  the list of sample rates has exactly one element, also when both values are
  \<^verbatim>\<open>undefined\<close>.
\<close>

theorem createEventEnvelope_item_header:
  "\<exists>ty m r.
      map fst (snd (fst (createEventEnvelope dts now e dsn metadata tunnel))) =
        [[(''type'', JStr ty),
          (''sample_rates'', JArr [JObj [(''id'', js_str m), (''rate'', js_num r)]])]]
    \<and> (\<forall>t. type e = Some t \<longrightarrow> ty = type_string t)
    \<and> (type e = None \<longrightarrow> ty = ''event'')
    \<and> (\<forall>pm ts. sdkProcessingMetadata e = Some pm \<and> transactionSampling pm = Some ts \<longrightarrow>
           m = method' ts \<and> r = rate ts)
    \<and> (sdkProcessingMetadata e = None \<or>
        (\<exists>pm. sdkProcessingMetadata e = Some pm \<and> transactionSampling pm = None) \<longrightarrow>
           m = None \<and> r = None)"
proof (intro exI conjI)
  show "map fst (snd (fst (createEventEnvelope dts now e dsn metadata tunnel))) =
        [[(''type'', JStr (js_or_default (map_option type_string (type e)) ''event'')),
          (''sample_rates'',
            JArr [JObj
              [(''id'',
                js_str (Option.bind (Option.bind (sdkProcessingMetadata e) transactionSampling)
                          method')),
               (''rate'',
                js_num (Option.bind (Option.bind (sdkProcessingMetadata e) transactionSampling)
                          rate))]])]]"
    by (simp add: createEventEnvelope_def createEnvelope_def Let_def)
  show "\<forall>t. type e = Some t \<longrightarrow>
          js_or_default (map_option type_string (type e)) ''event'' = type_string t"
    using type_string_nonempty by (simp add: js_or_default_def)
qed (auto simp: js_or_default_def)

theorem createEventEnvelope_item_header_witness:
  "type ex_transaction = Some Transaction
   \<and> type_string Transaction = ''transaction''
   \<and> sdkProcessingMetadata ex_transaction =
       Some \<lparr>transactionSampling = Some \<lparr>method' = Some ''client_sampler'', rate = Some 1\<rparr>,
             processing_other = []\<rparr>
   \<and> map fst (snd (fst (createEventEnvelope ex_dsnToString now0 ex_transaction ex_dsn None None))) =
       [[(''type'', JStr ''transaction''),
         (''sample_rates'', JArr [JObj [(''id'', JStr ''client_sampler''), (''rate'', JNum 1)]])]]
   \<and> type (ex_event\<lparr>sdkProcessingMetadata := None\<rparr>) = None
   \<and> sdkProcessingMetadata (ex_event\<lparr>sdkProcessingMetadata := None\<rparr>) = None
   \<and> map fst (snd (fst (createEventEnvelope ex_dsnToString now0
                          (ex_event\<lparr>sdkProcessingMetadata := None\<rparr>) ex_dsn None None))) =
       [[(''type'', JStr ''event''),
         (''sample_rates'', JArr [JObj [(''id'', JUndefined), (''rate'', JUndefined)]])]]"
  using createEventEnvelope_item_header
          [where dts = ex_dsnToString and now = now0 and e = ex_transaction and dsn = ex_dsn
             and metadata = None and tunnel = None]
    createEventEnvelope_item_header
          [where dts = ex_dsnToString and now = now0
             and e = "ex_event\<lparr>sdkProcessingMetadata := None\<rparr>" and dsn = ex_dsn
             and metadata = None and tunnel = None]
  by (simp add: createEventEnvelope_def createEnvelope_def Let_def js_or_default_def js_str_def
        js_num_def ex_transaction_def ex_event_def Transaction.rep_eq)

section \<open>The session envelope\<close>

text \<open>
  Claim C5. For every session input, \<^verbatim>\<open>createSessionEnvelope\<close> builds one item, whose
  header has the type \<^verbatim>\<open>'sessions'\<close> if the input has an \<^verbatim>\<open>aggregates\<close> key and the type
  \<^verbatim>\<open>'session'\<close> otherwise, nothing else deciding it, and whose payload is the input.
\<close>

theorem createSessionEnvelope_item_type:
  "snd (createSessionEnvelope dts now session dsn metadata tunnel) =
     [([(''type'', JStr (if js_in ''aggregates'' session then ''sessions'' else ''session''))],
       session)]"
  by (simp add: createSessionEnvelope_def createEnvelope_def Let_def)

theorem createSessionEnvelope_item_type_witness:
  "js_in ''aggregates'' ex_aggregates
   \<and> snd (createSessionEnvelope ex_dsnToString now0 ex_aggregates ex_dsn None None) =
       [([(''type'', JStr ''sessions'')], ex_aggregates)]
   \<and> \<not> js_in ''aggregates'' ex_session
   \<and> snd (createSessionEnvelope ex_dsnToString now0 ex_session ex_dsn None None) =
       [([(''type'', JStr ''session'')], ex_session)]"
  using createSessionEnvelope_item_type
          [where dts = ex_dsnToString and now = now0 and session = ex_aggregates and dsn = ex_dsn
             and metadata = None and tunnel = None]
    createSessionEnvelope_item_type
          [where dts = ex_dsnToString and now = now0 and session = ex_session and dsn = ex_dsn
             and metadata = None and tunnel = None]
  by (simp add: js_in_def ex_aggregates_def ex_session_def)

section \<open>The optional keys of the headers\<close>

text \<open>
  Claim C6. In the headers of an event envelope and of a session envelope alike,
  \<^verbatim>\<open>sent_at\<close> is always present (and is the time of the call); the \<^verbatim>\<open>sdk\<close> key is
  present if and only if the metadata is supplied and has an \<^verbatim>\<open>sdk\<close> record; and the
  \<^verbatim>\<open>dsn\<close> key is present if and only if the tunnel argument is truthy, whatever the
  metadata.
\<close>

theorem envelope_headers_optional_keys:
  "(let h = fst (fst (createEventEnvelope dts now e dsn metadata tunnel));
        hs = fst (createSessionEnvelope dts now session dsn metadata tunnel);
        sdk_present = (\<exists>m s. metadata = Some m \<and> SdkMetadata_of.sdk m = Some s)
    in js_in ''sent_at'' h \<and> js_get h ''sent_at'' = JStr now
     \<and> (js_in ''sdk'' h \<longleftrightarrow> sdk_present)
     \<and> (js_in ''dsn'' h \<longleftrightarrow> truthy tunnel)
     \<and> js_in ''sent_at'' hs \<and> js_get hs ''sent_at'' = JStr now
     \<and> (js_in ''sdk'' hs \<longleftrightarrow> sdk_present)
     \<and> (js_in ''dsn'' hs \<longleftrightarrow> truthy tunnel))
   \<and> (js_in ''sdk'' (createEventEnvelopeHeaders dts now e si tunnel dsn) \<longleftrightarrow> si \<noteq> None)
   \<and> (js_in ''dsn'' (createEventEnvelopeHeaders dts now e si tunnel dsn) \<longleftrightarrow> truthy tunnel)"
proof -
  have a: "js_get (createEventEnvelopeHeaders dts now e' si' tunnel dsn) ''sent_at'' = JStr now"
    for e' si'
    by (simp add: createEventEnvelopeHeaders_def js_get_def)
  have b: "js_get (fst (createSessionEnvelope dts now session dsn metadata tunnel)) ''sent_at'' =
      JStr now"
    by (simp add: createSessionEnvelope_def createEnvelope_def Let_def js_get_def)
  show ?thesis
    unfolding Let_def
    by (simp add: event_envelope_headers a b js_in_def headers_keys session_headers_keys
          getSdkMetadataForEnvelopeHeader_None)
qed

theorem envelope_headers_optional_keys_witness:
  "fst (fst (createEventEnvelope ex_dsnToString now0 ex_event ex_dsn (Some ex_metadata)
               (Some ''/tunnel''))) =
     [(''event_id'', JStr ''9ec79c33ec9942ab8353589fcb2e04dc''),
      (''sent_at'', JStr now0),
      (''sdk'', JObj [(''name'', JStr ''sentry.javascript.browser''),
                      (''version'', JStr ''7.0.0'')]),
      (''dsn'', JStr ''https://abc123@sentry.example/42'')]
   \<and> fst (createSessionEnvelope ex_dsnToString now0 ex_session ex_dsn None (Some ''/tunnel'')) =
     [(''sent_at'', JStr now0), (''dsn'', JStr ''https://abc123@sentry.example/42'')]
   \<and> fst (createSessionEnvelope ex_dsnToString now0 ex_session ex_dsn (Some ex_metadata)
            (Some '''')) =
     [(''sent_at'', JStr now0),
      (''sdk'', JObj [(''name'', JStr ''sentry.javascript.browser''),
                      (''version'', JStr ''7.0.0'')])]"
  using envelope_headers_optional_keys
          [where dts = ex_dsnToString and now = now0 and e = ex_event and dsn = ex_dsn
             and metadata = "Some ex_metadata" and tunnel = "Some ''/tunnel''"
             and session = ex_session and si = None]
  by (simp add: createEventEnvelope_def createEventEnvelopeHeaders_def createSessionEnvelope_def
        createEnvelope_def getSdkMetadataForEnvelopeHeader_def enhanceEventWithSdkInfo_def
        Let_def spread_opt_def spread_if_def truthy_def js_str_def ex_event_def ex_metadata_def
        ex_sdk_def ex_dsnToString_def)

section \<open>Replay segment ids\<close>

text \<open>
  Claim C7. In a single replay session, that is from \<^verbatim>\<open>start()\<close> on and with no further
  \<^verbatim>\<open>start()\<close>, the ids of the segments emitted are \<open>0, 1, 2, \<dots>\<close> in emission order:
  strictly increasing from 0, with no gap; the counter belongs to the session, and a
  reload or a navigation does not reset it; a flush of a non-empty accumulator emits
  the segment numbered by the counter and increments the counter by exactly 1; and a
  flush trigger that finds the accumulator empty of all four kinds of data changes
  nothing and consumes no segment id.
\<close>

theorem segment_ids_sequence:
  "((\<forall>x \<in> set sigs. \<not> isStart x) \<longrightarrow>
      map segment_id (snd (run idle (Start snap # sigs))) =
        [0 ..< length (snd (run idle (Start snap # sigs)))])
   \<and> (\<forall>x \<in> {Tick, Backgrounded, Navigated, ManualFlush}.
        (isEmpty (accumulator s) \<longrightarrow> step s x = (s, None))
      \<and> (state s = Recording \<and> \<not> isEmpty (accumulator s) \<longrightarrow>
           step s x =
             (s\<lparr>segmentCounter := segmentCounter s + 1, accumulator := emptyAccumulator\<rparr>,
              Some \<lparr>segment_id = segmentCounter s, recording = accumulator s\<rparr>)))
   \<and> segmentCounter (fst (step s (Reloaded snap))) = segmentCounter s
   \<and> state (fst (step s (Reloaded snap))) = state s"
proof (intro conjI impI)
  assume ns: "\<forall>x \<in> set sigs. \<not> isStart x"
  obtain s1 seg where st: "step idle (Start snap) = (s1, seg)"
    by (cases "step idle (Start snap)")
  obtain s2 rest where rn: "run s1 sigs = (s2, rest)"
    by (cases "run s1 sigs")
  from st have s1: "segmentCounter s1 = 0" "seg = None"
    by (auto simp: idle_def)
  from run_ids[OF rn ns] s1 have "map segment_id rest = [0 ..< length rest]"
    by simp
  moreover have "snd (run idle (Start snap # sigs)) = rest"
    using st rn s1 by simp
  ultimately show "map segment_id (snd (run idle (Start snap # sigs))) =
       [0 ..< length (snd (run idle (Start snap # sigs)))]"
    by simp
next
  show "\<forall>x \<in> {Tick, Backgrounded, Navigated, ManualFlush}.
        (isEmpty (accumulator s) \<longrightarrow> step s x = (s, None))
      \<and> (state s = Recording \<and> \<not> isEmpty (accumulator s) \<longrightarrow>
           step s x =
             (s\<lparr>segmentCounter := segmentCounter s + 1, accumulator := emptyAccumulator\<rparr>,
              Some \<lparr>segment_id = segmentCounter s, recording = accumulator s\<rparr>))"
    by (simp add: flush_def)
qed simp_all

theorem segment_ids_sequence_witness:
  "list_all (\<lambda>x. \<not> isStart x) ex_signals
   \<and> map segment_id (snd (run idle (Start ''full snapshot'' # ex_signals))) = [0, 1, 2, 3]
   \<and> map (fullSnapshots \<circ> recording) (snd (run idle (Start ''full snapshot'' # ex_signals))) =
       [[''full snapshot''], [], [''full snapshot after reload''], []]
   \<and> isEmpty (accumulator (idle :: string Segmenter))
   \<and> step (idle :: string Segmenter) Tick = (idle, None)
   \<and> state ex_recording = Recording
   \<and> \<not> isEmpty (accumulator ex_recording)
   \<and> step ex_recording Backgrounded =
       (\<lparr>state = Recording, segmentCounter = 5, accumulator = emptyAccumulator\<rparr>,
        Some \<lparr>segment_id = 4, recording = accumulator ex_recording\<rparr>)
   \<and> step (ex_recording\<lparr>accumulator := emptyAccumulator\<rparr>) Backgrounded =
       (ex_recording\<lparr>accumulator := emptyAccumulator\<rparr>, None)
   \<and> segmentCounter (fst (step ex_recording (Reloaded ''full snapshot after reload''))) = 4"
  using segment_ids_sequence
          [where sigs = ex_signals and snap = "''full snapshot''" and s = "idle :: string Segmenter"]
    segment_ids_sequence
          [where sigs = "[]" and snap = "''full snapshot after reload''" and s = ex_recording]
  by (simp add: ex_signals_def ex_recording_def idle_def flush_def isEmpty_def
        emptyAccumulator_def)

section \<open>The event id of the headers\<close>

text \<open>
  Claim C8, as the code has it. \<^verbatim>\<open>createEventEnvelopeHeaders\<close> and \<^verbatim>\<open>createEventEnvelope\<close>
  check nothing and raise nothing: for every event, with or without an \<^verbatim>\<open>event_id\<close>,
  the headers are built and their first key is \<^verbatim>\<open>event_id\<close>, holding the \<^verbatim>\<open>event_id\<close> of
  the event copied verbatim, which is \<^verbatim>\<open>undefined\<close> when the event has none.
\<close>

theorem createEventEnvelopeHeaders_event_id:
  "(\<exists>rest. createEventEnvelopeHeaders dts now e si tunnel dsn =
             (''event_id'', js_str (event_id e)) # rest)
   \<and> (\<exists>rest. fst (fst (createEventEnvelope dts now e dsn metadata tunnel)) =
             (''event_id'', js_str (event_id e)) # rest)"
  by (simp add: event_envelope_headers createEventEnvelopeHeaders_def)
     (simp add: createEventEnvelope_def enhanceEventWithSdkInfo_def Let_def split: option.split)

text \<open>
  Claim C8 as stated fails on an event with no \<^verbatim>\<open>event_id\<close>: the envelope is returned,
  with headers whose \<^verbatim>\<open>event_id\<close> is \<^verbatim>\<open>undefined\<close>.
\<close>

theorem createEventEnvelope_missing_event_id_counterexample:
  "event_id (ex_event\<lparr>event_id := None\<rparr>) = None
   \<and> createEventEnvelopeHeaders ex_dsnToString now0 (ex_event\<lparr>event_id := None\<rparr>) None None ex_dsn =
       [(''event_id'', JUndefined), (''sent_at'', JStr now0)]
   \<and> fst (fst (createEventEnvelope ex_dsnToString now0 (ex_event\<lparr>event_id := None\<rparr>) ex_dsn
                 None None)) =
       [(''event_id'', JUndefined), (''sent_at'', JStr now0)]"
  by (simp add: createEventEnvelope_def createEventEnvelopeHeaders_def createEnvelope_def
        getSdkMetadataForEnvelopeHeader_def enhanceEventWithSdkInfo_def Let_def spread_opt_def
        spread_if_def truthy_def js_str_def ex_event_def)

section \<open>What the envelope functions change\<close>

text \<open>
  Claim C9. \<^verbatim>\<open>createEventEnvelope\<close> leaves the event as it was but for two fields: the
  \<^verbatim>\<open>sdk\<close> record, which is what the SDK metadata merger makes of it (and is unchanged when
  the metadata has no \<^verbatim>\<open>sdk\<close> record), and \<^verbatim>\<open>sdkProcessingMetadata\<close>, which is deleted.
  Building the headers changes nothing: the payload of the envelope is the event in
  that same state. \<^verbatim>\<open>createSessionEnvelope\<close> assigns to nothing, and the payload of its
  envelope is the session it was given.
\<close>

theorem createEventEnvelope_frame:
  "(case createEventEnvelope dts now e dsn metadata tunnel of
      ((headers, items), e') \<Rightarrow>
         e' = e\<lparr>Event_of.sdk :=
                  Event_of.sdk (enhanceEventWithSdkInfo e (Option.bind metadata SdkMetadata_of.sdk)),
                sdkProcessingMetadata := None\<rparr>
       \<and> event_id e' = event_id e \<and> type e' = type e \<and> contexts e' = contexts e
       \<and> environment e' = environment e \<and> release e' = release e
       \<and> transaction e' = transaction e \<and> user e' = user e
       \<and> event_other e' = event_other e
       \<and> map snd items = [e'])
   \<and> (Option.bind metadata SdkMetadata_of.sdk = None \<longrightarrow>
        Event_of.sdk (snd (createEventEnvelope dts now e dsn metadata tunnel)) = Event_of.sdk e)
   \<and> map snd (snd (createSessionEnvelope dts now session dsn metadata tunnel)) = [session]"
  by (simp add: createEventEnvelope_def createEnvelope_def createSessionEnvelope_def
        enhanceEventWithSdkInfo_def Let_def split: option.split)

theorem createEventEnvelope_frame_witness:
  "snd (createEventEnvelope ex_dsnToString now0 ex_transaction ex_dsn (Some ex_metadata) None) =
     ex_transaction
       \<lparr>sdk := Some \<lparr>name = Some ''custom.sdk'', version = Some ''1.0.0'',
                     integrations = Some [''Tracing'', ''InboundFilters'', ''Breadcrumbs''],
                     packages = Some [Package ''npm:@sentry/browser'' ''7.0.0'']\<rparr>,
        sdkProcessingMetadata := None\<rparr>
   \<and> Option.bind (Some \<lparr>SdkMetadata_of.sdk = None\<rparr>) SdkMetadata_of.sdk = None
   \<and> snd (createEventEnvelope ex_dsnToString now0 ex_transaction ex_dsn
            (Some \<lparr>SdkMetadata_of.sdk = None\<rparr>) None) =
     ex_transaction\<lparr>sdkProcessingMetadata := None\<rparr>
   \<and> map snd (snd (createSessionEnvelope ex_dsnToString now0 ex_session ex_dsn
                     (Some ex_metadata) None)) = [ex_session]"
  using createEventEnvelope_frame
          [where dts = ex_dsnToString and now = now0 and e = ex_transaction and dsn = ex_dsn
             and metadata = "Some ex_metadata" and tunnel = None and session = ex_session]
    createEventEnvelope_frame
          [where dts = ex_dsnToString and now = now0 and e = ex_transaction and dsn = ex_dsn
             and metadata = "Some \<lparr>SdkMetadata_of.sdk = None\<rparr>" and tunnel = None
             and session = ex_session]
  by (simp add: createEventEnvelope_def createSessionEnvelope_def createEnvelope_def
        enhanceEventWithSdkInfo_def Let_def js_or_def truthy_def or_empty_def
        ex_transaction_def ex_metadata_def ex_sdk_def)

section \<open>The arrays of the merged SDK record\<close>

text \<open>
  Claim C10. For every event and every SDK descriptor that is present, after
  \<^verbatim>\<open>enhanceEventWithSdkInfo\<close> the event has an \<^verbatim>\<open>sdk\<close> record, also when it had none, and
  the \<^verbatim>\<open>integrations\<close> and \<^verbatim>\<open>packages\<close> of that record are defined and are fresh arrays:
  their addresses are not allocated before the call and are allocated after it, so
  they differ from every array there was, those of the event included, and the merge
  is never a no-op on the two fields. The new arrays hold the entries of the event
  followed by those of the descriptor, and are empty when both lacked the field. No
  array that was there before is changed. Read by value, the fields are the defined
  lists that the merger by value computes.
\<close>

theorem enhanceEventWithSdkInfo_fresh_arrays:
  "(case enhanceEventWithSdkInfo_store st e (Some d) of
      (e', st') \<Rightarrow>
        (\<exists>s' a b.
            Event_of.sdk e' = Some s' \<and> integrations s' = Some a \<and> packages s' = Some b
          \<and> \<not> allocated (stringArrays st) a \<and> allocated (stringArrays st') a
          \<and> \<not> allocated (packageArrays st) b \<and> allocated (packageArrays st') b
          \<and> array_at (stringArrays st') a =
               elements (stringArrays st) (integrations (sdk_or_empty (Event_of.sdk e)))
               @ elements (stringArrays st) (integrations d)
          \<and> array_at (packageArrays st') b =
               elements (packageArrays st) (packages (sdk_or_empty (Event_of.sdk e)))
               @ elements (packageArrays st) (packages d)
          \<and> (integrations (sdk_or_empty (Event_of.sdk e)) = None \<and> integrations d = None \<longrightarrow>
                array_at (stringArrays st') a = [])
          \<and> (packages (sdk_or_empty (Event_of.sdk e)) = None \<and> packages d = None \<longrightarrow>
                array_at (packageArrays st') b = []))
      \<and> (\<forall>x. allocated (stringArrays st) x \<longrightarrow>
             array_at (stringArrays st') x = array_at (stringArrays st) x)
      \<and> (\<forall>x. allocated (packageArrays st) x \<longrightarrow>
             array_at (packageArrays st') x = array_at (packageArrays st) x)
      \<and> load_event st' e' = enhanceEventWithSdkInfo (load_event st e) (Some (load_sdk st d)))
   \<and> (\<exists>s'. Event_of.sdk (enhanceEventWithSdkInfo ev (Some dv)) = Some s'
         \<and> integrations s' =
             Some (or_empty (integrations (sdk_or_empty (Event_of.sdk ev)))
                   @ or_empty (integrations dv))
         \<and> packages s' =
             Some (or_empty (packages (sdk_or_empty (Event_of.sdk ev))) @ or_empty (packages dv)))"
proof -
  obtain e' st' where r: "enhanceEventWithSdkInfo_store st e (Some d) = (e', st')"
    by (cases "enhanceEventWithSdkInfo_store st e (Some d)")
  have "load_event st' e' = enhanceEventWithSdkInfo (load_event st e) (Some (load_sdk st d))"
    using enhanceEventWithSdkInfo_store_load [OF r] by simp
  moreover from r have "\<exists>s' a b.
            Event_of.sdk e' = Some s' \<and> integrations s' = Some a \<and> packages s' = Some b
          \<and> \<not> allocated (stringArrays st) a \<and> allocated (stringArrays st') a
          \<and> \<not> allocated (packageArrays st) b \<and> allocated (packageArrays st') b
          \<and> array_at (stringArrays st') a =
               elements (stringArrays st) (integrations (sdk_or_empty (Event_of.sdk e)))
               @ elements (stringArrays st) (integrations d)
          \<and> array_at (packageArrays st') b =
               elements (packageArrays st) (packages (sdk_or_empty (Event_of.sdk e)))
               @ elements (packageArrays st) (packages d)
          \<and> (integrations (sdk_or_empty (Event_of.sdk e)) = None \<and> integrations d = None \<longrightarrow>
                array_at (stringArrays st') a = [])
          \<and> (packages (sdk_or_empty (Event_of.sdk e)) = None \<and> packages d = None \<longrightarrow>
                array_at (packageArrays st') b = [])"
    by (auto simp: enhanceEventWithSdkInfo_store_def Let_def new_array_def allocated_def
          elements_def cong: option.case_cong)
  moreover from r have "\<forall>x. allocated (stringArrays st) x \<longrightarrow>
             array_at (stringArrays st') x = array_at (stringArrays st) x"
    by (auto simp: enhanceEventWithSdkInfo_store_def Let_def new_array_def allocated_def)
  moreover from r have "\<forall>x. allocated (packageArrays st) x \<longrightarrow>
             array_at (packageArrays st') x = array_at (packageArrays st) x"
    by (auto simp: enhanceEventWithSdkInfo_store_def Let_def new_array_def allocated_def)
  moreover have "\<exists>s'. Event_of.sdk (enhanceEventWithSdkInfo ev (Some dv)) = Some s'
         \<and> integrations s' =
             Some (or_empty (integrations (sdk_or_empty (Event_of.sdk ev)))
                   @ or_empty (integrations dv))
         \<and> packages s' =
             Some (or_empty (packages (sdk_or_empty (Event_of.sdk ev))) @ or_empty (packages dv))"
    by (simp add: enhanceEventWithSdkInfo_def Let_def)
  ultimately show ?thesis
    by (simp add: r)
qed

text \<open>
  An event whose integrations are the allocated array 0, merged with a descriptor that
  has no arrays: the integrations become the new array 2, with the elements of array
  0, and the packages become the new, empty array 0 of packages; array 0 of the
  integrations is as before. On an event with no SDK record, merged with a descriptor
  with no arrays, the two fields become new, empty arrays.
\<close>

theorem enhanceEventWithSdkInfo_fresh_arrays_witness:
  "enhanceEventWithSdkInfo_store ex_store ex_event_ref (Some ex_sdk_ref) =
     (ex_event_ref
        \<lparr>sdk := Some \<lparr>name = Some ''custom.sdk'', version = Some ''1.0.0'',
                      integrations = Some 2, packages = Some 0\<rparr>\<rparr>,
      \<lparr>stringArrays = [[''Tracing''], [''InboundFilters'', ''Breadcrumbs''], [''Tracing'']],
       packageArrays = [[]]\<rparr>)
   \<and> allocated (stringArrays ex_store) 0
   \<and> \<not> allocated (stringArrays ex_store) 2
   \<and> \<not> allocated (packageArrays ex_store) 0
   \<and> enhanceEventWithSdkInfo_store ex_store (ex_event_ref\<lparr>sdk := None\<rparr>)
        (Some \<lparr>name = None, version = None, integrations = None, packages = None\<rparr>) =
     (ex_event_ref
        \<lparr>sdk := Some \<lparr>name = None, version = None,
                      integrations = Some 2, packages = Some 0\<rparr>\<rparr>,
      \<lparr>stringArrays = [[''Tracing''], [''InboundFilters'', ''Breadcrumbs''], []],
       packageArrays = [[]]\<rparr>)
   \<and> Event_of.sdk ex_event = None
   \<and> Event_of.sdk
        (enhanceEventWithSdkInfo ex_event
           (Some \<lparr>name = None, version = None, integrations = None, packages = None\<rparr>)) =
       Some \<lparr>name = None, version = None, integrations = Some [], packages = Some []\<rparr>"
  using enhanceEventWithSdkInfo_fresh_arrays
          [where st = ex_store and e = ex_event_ref and d = ex_sdk_ref and ev = ex_event
             and dv = "\<lparr>name = None, version = None, integrations = None, packages = None\<rparr>"]
    enhanceEventWithSdkInfo_fresh_arrays
          [where st = ex_store and e = "ex_event_ref\<lparr>sdk := None\<rparr>"
             and d = "\<lparr>name = None, version = None, integrations = None, packages = None\<rparr>"
             and ev = ex_event and dv = ex_sdk]
  by (simp add: enhanceEventWithSdkInfo_store_def enhanceEventWithSdkInfo_def Let_def
        new_array_def allocated_def elements_def array_at_def js_or_def truthy_def or_empty_def
        sdk_or_empty_def ex_store_def ex_event_ref_def ex_sdk_ref_def ex_event_def)

end
